theory Spec2Isabelle
  imports Complex_Main
begin

section \<open>The synthesis engine of synth-ai (src/services/audioEngine.ts)\<close>

text \<open>
  The engine is a class with nullable fields for the shared audio graph and a
  \<open>Map\<close> from note identity to the five nodes of a voice. Its methods mutate these
  fields and call into the host's Web Audio objects. The embedding passes the engine
  state explicitly: every method is a function from the state before the call to the
  state after it, and every early \<open>return\<close> of the source is a branch that gives the
  state back unchanged. The source contains no \<open>throw\<close>.

  TypeScript's \<open>number\<close> is modelled by \<open>real\<close>: rounding, infinities and NaN are not
  represented. Host objects are records holding what the engine reads or writes. An
  \<open>AudioParam\<close> keeps its \<open>.value\<close> and the automation calls issued on it, in call
  order; the host's own validation of arguments is outside the model, and so is the
  audio thread, which alone moves \<open>.value\<close> along the scheduled curve.

  Names are those of the source. Where a name is reserved or already taken it is
  changed: the field \<open>context\<close> is \<open>audioContext\<close>, the parameter \<open>id\<close> is \<open>id'\<close>, the
  patch field \<open>masterGain\<close> is \<open>patchMasterGain\<close> (the engine has a field of that
  name), the voice field \<open>filter\<close> is \<open>filter_node\<close>, and the properties of host
  nodes carry a prefix for their node type (\<open>osc_type\<close>, \<open>flt_frequency\<close>,
  \<open>param_value\<close>).
\<close>

subsection \<open>src/types.ts\<close>

datatype OscillatorType = Sine | Square | Sawtooth | Triangle

type_synonym LfoWaveform = OscillatorType

datatype LfoTarget = LfoNone | Cutoff | Pitch | Amp

record SynthPatch =
  oscType :: OscillatorType
  filterCutoff :: real
  filterResonance :: real
  ampAttack :: real
  ampDecay :: real
  ampSustain :: real
  ampRelease :: real
  patchMasterGain :: real
  lfoWaveform :: LfoWaveform
  lfoRate :: real
  lfoDepth :: real
  lfoTarget :: LfoTarget
  distortionAmount :: real
  delayTime :: real
  delayFeedback :: real
  reverbMix :: real

definition DEFAULT_PATCH :: SynthPatch where
  "DEFAULT_PATCH =
     \<lparr>oscType = Sawtooth, filterCutoff = 2000, filterResonance = 1,
      ampAttack = 0.1, ampDecay = 0.2, ampSustain = 0.7, ampRelease = 1.0,
      patchMasterGain = 0.5,
      lfoWaveform = Sine, lfoRate = 5, lfoDepth = 0, lfoTarget = LfoNone,
      distortionAmount = 0, delayTime = 0.3, delayFeedback = 0.3, reverbMix = 0\<rparr>"

subsection \<open>Host objects: automation parameters\<close>

text \<open>
  Each constructor carries the arguments of the call it records: the target value and
  the time, and for \<open>setTargetAtTime\<close> the time constant.
\<close>

datatype AutomationEvent =
    SetValueAtTime real real
  | LinearRampToValueAtTime real real
  | ExponentialRampToValueAtTime real real
  | SetTargetAtTime real real real

fun event_time :: "AutomationEvent \<Rightarrow> real" where
  "event_time (SetValueAtTime v t) = t"
| "event_time (LinearRampToValueAtTime v t) = t"
| "event_time (ExponentialRampToValueAtTime v t) = t"
| "event_time (SetTargetAtTime v t tc) = t"

record AudioParam =
  param_value :: real
  events :: "AutomationEvent list"

definition new_AudioParam :: "real \<Rightarrow> AudioParam" where
  "new_AudioParam d = \<lparr>param_value = d, events = []\<rparr>"

definition setValueAtTime :: "real \<Rightarrow> real \<Rightarrow> AudioParam \<Rightarrow> AudioParam" where
  "setValueAtTime v t p = p\<lparr>events := events p @ [SetValueAtTime v t]\<rparr>"

definition linearRampToValueAtTime :: "real \<Rightarrow> real \<Rightarrow> AudioParam \<Rightarrow> AudioParam" where
  "linearRampToValueAtTime v t p = p\<lparr>events := events p @ [LinearRampToValueAtTime v t]\<rparr>"

definition exponentialRampToValueAtTime :: "real \<Rightarrow> real \<Rightarrow> AudioParam \<Rightarrow> AudioParam" where
  "exponentialRampToValueAtTime v t p =
     p\<lparr>events := events p @ [ExponentialRampToValueAtTime v t]\<rparr>"

definition setTargetAtTime :: "real \<Rightarrow> real \<Rightarrow> real \<Rightarrow> AudioParam \<Rightarrow> AudioParam" where
  "setTargetAtTime v t tc p = p\<lparr>events := events p @ [SetTargetAtTime v t tc]\<rparr>"

text \<open>
  \<open>cancelScheduledValues(t)\<close> drops every scheduled change whose time is \<open>t\<close> or later.
\<close>

definition cancelScheduledValues :: "real \<Rightarrow> AudioParam \<Rightarrow> AudioParam" where
  "cancelScheduledValues t p = p\<lparr>events := filter (\<lambda>e. event_time e < t) (events p)\<rparr>"

subsection \<open>Host objects: nodes, the connection graph and the audio context\<close>

text \<open>
  A node has an identity (a number given out by the context that created it) and the
  parameters the engine touches. The values a fresh node starts with are those of the
  Web Audio interface: gain 1, oscillator 440 Hz sine with detune 0, biquad lowpass at
  350 Hz with Q 1, delay time 0, no shaping curve and no oversampling, FFT size 2048.
\<close>

type_synonym node_id = nat

record GainNode =
  gain_id :: node_id
  gain :: AudioParam

record OscillatorNode =
  osc_id :: node_id
  osc_type :: OscillatorType
  osc_frequency :: AudioParam
  osc_detune :: AudioParam
  startTime :: "real option"
  stopTime :: "real option"

datatype BiquadFilterType = Lowpass | Highpass | Bandpass

record BiquadFilterNode =
  flt_id :: node_id
  flt_type :: BiquadFilterType
  flt_frequency :: AudioParam
  flt_Q :: AudioParam

datatype OverSampleType = OversampleNone | Oversample2x | Oversample4x

record WaveShaperNode =
  shaper_id :: node_id
  curve :: "real list option"
  oversample :: OverSampleType

record DelayNode =
  delay_id :: node_id
  maxDelayTime :: real
  delay_delayTime :: AudioParam

record AudioBuffer =
  numberOfChannels :: nat
  buf_length :: nat
  buf_sampleRate :: real
  channelData :: "real list list"

record ConvolverNode =
  conv_id :: node_id
  buffer :: "AudioBuffer option"

record AnalyserNode =
  analyser_id :: node_id
  fftSize :: nat

text \<open>
  The destination of a connection: the input of a node, the context's output, or one of
  the three parameters an LFO can modulate.
\<close>

datatype Destination =
    NodeInput node_id
  | ContextDestination
  | FrequencyParam node_id
  | DetuneParam node_id
  | GainParam node_id

datatype AudioContextState = Suspended | Running | Closed

text \<open>
  \<open>currentTime\<close> and \<open>ctx_state\<close> are advanced by the host between calls; the engine
  only reads them. \<open>resumeCalls\<close> counts the \<open>resume()\<close> requests the engine has made.
\<close>

record AudioContext =
  currentTime :: real
  sampleRate :: real
  ctx_state :: AudioContextState
  resumeCalls :: nat
  nextId :: node_id
  connections :: "(node_id \<times> Destination) set"

definition new_AudioContext :: "real \<Rightarrow> AudioContextState \<Rightarrow> AudioContext" where
  "new_AudioContext rate st =
     \<lparr>currentTime = 0, sampleRate = rate, ctx_state = st, resumeCalls = 0,
      nextId = 0, connections = {}\<rparr>"

definition createGain :: "AudioContext \<Rightarrow> GainNode \<times> AudioContext" where
  "createGain c =
     (\<lparr>gain_id = nextId c, gain = new_AudioParam 1\<rparr>, c\<lparr>nextId := nextId c + 1\<rparr>)"

definition createOscillator :: "AudioContext \<Rightarrow> OscillatorNode \<times> AudioContext" where
  "createOscillator c =
     (\<lparr>osc_id = nextId c, osc_type = Sine, osc_frequency = new_AudioParam 440,
       osc_detune = new_AudioParam 0, startTime = None, stopTime = None\<rparr>,
      c\<lparr>nextId := nextId c + 1\<rparr>)"

definition createBiquadFilter :: "AudioContext \<Rightarrow> BiquadFilterNode \<times> AudioContext" where
  "createBiquadFilter c =
     (\<lparr>flt_id = nextId c, flt_type = Lowpass, flt_frequency = new_AudioParam 350,
       flt_Q = new_AudioParam 1\<rparr>,
      c\<lparr>nextId := nextId c + 1\<rparr>)"

definition createWaveShaper :: "AudioContext \<Rightarrow> WaveShaperNode \<times> AudioContext" where
  "createWaveShaper c =
     (\<lparr>shaper_id = nextId c, curve = None, oversample = OversampleNone\<rparr>,
      c\<lparr>nextId := nextId c + 1\<rparr>)"

definition createDelay :: "real \<Rightarrow> AudioContext \<Rightarrow> DelayNode \<times> AudioContext" where
  "createDelay maxTime c =
     (\<lparr>delay_id = nextId c, maxDelayTime = maxTime, delay_delayTime = new_AudioParam 0\<rparr>,
      c\<lparr>nextId := nextId c + 1\<rparr>)"

definition createConvolver :: "AudioContext \<Rightarrow> ConvolverNode \<times> AudioContext" where
  "createConvolver c =
     (\<lparr>conv_id = nextId c, buffer = None\<rparr>, c\<lparr>nextId := nextId c + 1\<rparr>)"

definition createAnalyser :: "AudioContext \<Rightarrow> AnalyserNode \<times> AudioContext" where
  "createAnalyser c =
     (\<lparr>analyser_id = nextId c, fftSize = 2048\<rparr>, c\<lparr>nextId := nextId c + 1\<rparr>)"

definition connect :: "node_id \<Rightarrow> Destination \<Rightarrow> AudioContext \<Rightarrow> AudioContext" where
  "connect src dst c = c\<lparr>connections := insert (src, dst) (connections c)\<rparr>"

text \<open>\<open>disconnect()\<close> without arguments removes every outgoing connection of the node.\<close>

definition disconnect :: "node_id \<Rightarrow> AudioContext \<Rightarrow> AudioContext" where
  "disconnect src c = c\<lparr>connections := Set.filter (\<lambda>e. fst e \<noteq> src) (connections c)\<rparr>"

definition ctx_resume :: "AudioContext \<Rightarrow> AudioContext" where
  "ctx_resume c = c\<lparr>resumeCalls := resumeCalls c + 1\<rparr>"

subsection \<open>The engine state\<close>

record Voice =
  osc :: OscillatorNode
  filter_node :: BiquadFilterNode
  amp :: GainNode
  lfo :: OscillatorNode
  lfoGain :: GainNode

text \<open>
  A pending \<open>setTimeout\<close>: the delay in milliseconds and the voice whose nodes the
  callback of \<open>triggerRelease\<close> has captured.
\<close>

record Timeout =
  delay_ms :: real
  captured :: Voice

text \<open>
  The fields of the class, and the host's queue of pending timeouts, which the release
  path appends to.
\<close>

record AudioEngine =
  audioContext :: "AudioContext option"
  masterGain :: "GainNode option"
  distortionNode :: "WaveShaperNode option"
  delayNode :: "DelayNode option"
  delayFeedbackNode :: "GainNode option"
  delayWetNode :: "GainNode option"
  reverbNode :: "ConvolverNode option"
  reverbWetNode :: "GainNode option"
  reverbDryNode :: "GainNode option"
  analyser :: "AnalyserNode option"
  activeNotes :: "string \<Rightarrow> Voice option"
  pendingTimeouts :: "Timeout list"

text \<open>The state of \<open>new AudioEngine()\<close>: every field initialiser of the class.\<close>

definition new_AudioEngine :: AudioEngine where
  "new_AudioEngine =
     \<lparr>audioContext = None, masterGain = None, distortionNode = None, delayNode = None,
      delayFeedbackNode = None, delayWetNode = None, reverbNode = None,
      reverbWetNode = None, reverbDryNode = None, analyser = None,
      activeNotes = Map.empty, pendingTimeouts = []\<rparr>"

subsection \<open>createImpulseResponse and makeDistortionCurve\<close>

text \<open>
  \<open>Math.random()\<close> is a parameter: \<open>rnd k\<close> is the result of the \<open>k\<close>-th call. The
  loop writes sample \<open>i\<close> of the left channel from call \<open>2i\<close> and of the right channel
  from call \<open>2i + 1\<close>; the buffer holds \<open>\<lfloor>length\<rfloor>\<close> samples per channel.
\<close>

definition createImpulseResponse ::
  "(nat \<Rightarrow> real) \<Rightarrow> AudioContext \<Rightarrow> real \<Rightarrow> real \<Rightarrow> AudioBuffer" where
  "createImpulseResponse rnd c duration decay =
     (let rate = sampleRate c;
          length = rate * duration;
          len = nat \<lfloor>length\<rfloor>;
          left = map (\<lambda>i. (rnd (2 * i) * 2 - 1) * ((1 - real i / length) powr decay))
                   [0..<len];
          right = map (\<lambda>i. (rnd (2 * i + 1) * 2 - 1) * ((1 - real i / length) powr decay))
                   [0..<len]
      in \<lparr>numberOfChannels = 2, buf_length = len, buf_sampleRate = rate,
          channelData = [left, right]\<rparr>)"

text \<open>
  The parameter \<open>amount\<close> is a \<open>number\<close>, so \<open>k\<close> is \<open>amount\<close>. The table has 44100
  entries; entry \<open>i\<close> is what the loop of the taken branch stores at index \<open>i\<close>.
\<close>

definition n_samples :: nat where
  "n_samples = 44100"

definition makeDistortionCurve :: "real \<Rightarrow> real list" where
  "makeDistortionCurve amount =
     (let k = amount;
          deg = pi / 180
      in if amount = 0
         then map (\<lambda>i. (real i * 2) / real n_samples - 1) [0..<n_samples]
         else map (\<lambda>i. let x = (real i * 2) / real n_samples - 1
                        in (3 + k) * x * 20 * deg / (pi + k * \<bar>x\<bar>))
                  [0..<n_samples])"

subsection \<open>init\<close>

text \<open>
  The sample rate and the initial state of the context the host constructs are
  parameters. \<open>delayInput\<close> and \<open>delayOut\<close> are locals of the source: after \<open>init\<close>
  they are reachable only through the connection graph.
\<close>

definition init :: "real \<Rightarrow> AudioContextState \<Rightarrow> (nat \<Rightarrow> real) \<Rightarrow> AudioEngine \<Rightarrow> AudioEngine" where
  "init hwRate hwState rnd this =
     (case audioContext this of
        Some _ \<Rightarrow> this
      | None \<Rightarrow>
         (let c = new_AudioContext hwRate hwState;
              (masterGain0, c) = createGain c;
              (distortionNode0, c) = createWaveShaper c;
              (delayNode0, c) = createDelay 5.0 c;
              (delayFeedbackNode0, c) = createGain c;
              (delayWetNode0, c) = createGain c;
              c = connect (delay_id delayNode0) (NodeInput (gain_id delayFeedbackNode0)) c;
              c = connect (gain_id delayFeedbackNode0) (NodeInput (delay_id delayNode0)) c;
              (reverbNode0, c) = createConvolver c;
              (reverbWetNode0, c) = createGain c;
              (reverbDryNode0, c) = createGain c;
              reverbNode0 = reverbNode0\<lparr>buffer := Some (createImpulseResponse rnd c 2.0 2.0)\<rparr>;
              (analyser0, c) = createAnalyser c;
              analyser0 = analyser0\<lparr>fftSize := 2048\<rparr>;
              c = connect (gain_id masterGain0) (NodeInput (shaper_id distortionNode0)) c;
              (delayInput, c) = createGain c;
              c = connect (shaper_id distortionNode0) (NodeInput (gain_id delayInput)) c;
              (delayOut, c) = createGain c;
              c = connect (gain_id delayInput) (NodeInput (delay_id delayNode0)) c;
              c = connect (delay_id delayNode0) (NodeInput (gain_id delayWetNode0)) c;
              c = connect (gain_id delayWetNode0) (NodeInput (gain_id delayOut)) c;
              c = connect (gain_id delayInput) (NodeInput (gain_id delayOut)) c;
              c = connect (gain_id delayOut) (NodeInput (conv_id reverbNode0)) c;
              c = connect (conv_id reverbNode0) (NodeInput (gain_id reverbWetNode0)) c;
              c = connect (gain_id reverbWetNode0) (NodeInput (analyser_id analyser0)) c;
              c = connect (gain_id delayOut) (NodeInput (gain_id reverbDryNode0)) c;
              c = connect (gain_id reverbDryNode0) (NodeInput (analyser_id analyser0)) c;
              c = connect (analyser_id analyser0) ContextDestination c;
              masterGain0 = masterGain0\<lparr>gain := (gain masterGain0)\<lparr>param_value := 0.5\<rparr>\<rparr>
          in this\<lparr>audioContext := Some c,
                  masterGain := Some masterGain0,
                  distortionNode := Some distortionNode0,
                  delayNode := Some delayNode0,
                  delayFeedbackNode := Some delayFeedbackNode0,
                  delayWetNode := Some delayWetNode0,
                  reverbNode := Some reverbNode0,
                  reverbWetNode := Some reverbWetNode0,
                  reverbDryNode := Some reverbDryNode0,
                  analyser := Some analyser0\<rparr>))"

subsection \<open>getAnalyser, resume, setMasterVolume\<close>

definition getAnalyser :: "AudioEngine \<Rightarrow> AnalyserNode option" where
  "getAnalyser this = analyser this"

definition resume :: "AudioEngine \<Rightarrow> AudioEngine" where
  "resume this =
     (case audioContext this of
        Some c \<Rightarrow>
          if ctx_state c = Suspended then this\<lparr>audioContext := Some (ctx_resume c)\<rparr> else this
      | None \<Rightarrow> this)"

definition setMasterVolume :: "real \<Rightarrow> AudioEngine \<Rightarrow> AudioEngine" where
  "setMasterVolume val this =
     (case masterGain this of
        None \<Rightarrow> this
      | Some mg \<Rightarrow>
         (case audioContext this of
            None \<Rightarrow> this
          | Some c \<Rightarrow>
              this\<lparr>masterGain :=
                     Some (mg\<lparr>gain := setTargetAtTime val (currentTime c) 0.01 (gain mg)\<rparr>)\<rparr>))"

subsection \<open>updateActiveParams\<close>

text \<open>
  The body of the \<open>forEach\<close> callback, applied to one voice. \<open>gainValue\<close> is the
  local of that name.
\<close>

definition updateVoice :: "SynthPatch \<Rightarrow> real \<Rightarrow> Voice \<Rightarrow> Voice" where
  "updateVoice patch t note =
     (let flt = filter_node note;
          flt = flt\<lparr>flt_frequency := setTargetAtTime (filterCutoff patch) t 0.1 (flt_frequency flt)\<rparr>;
          flt = flt\<lparr>flt_Q := setTargetAtTime (filterResonance patch) t 0.1 (flt_Q flt)\<rparr>;
          l = lfo note;
          l = (if osc_type l \<noteq> lfoWaveform patch then l\<lparr>osc_type := lfoWaveform patch\<rparr> else l);
          l = l\<lparr>osc_frequency := setTargetAtTime (lfoRate patch) t 0.1 (osc_frequency l)\<rparr>;
          gainValue =
            (if lfoTarget patch = Cutoff then lfoDepth patch * 1000
             else if lfoTarget patch = Pitch then lfoDepth patch * 100
             else if lfoTarget patch = Amp then lfoDepth patch * 0.5
             else 0);
          lg = lfoGain note;
          lg = lg\<lparr>gain := setTargetAtTime gainValue t 0.1 (gain lg)\<rparr>
      in note\<lparr>filter_node := flt, lfo := l, lfoGain := lg\<rparr>)"

text \<open>
  The callback touches each voice on its own, so the order in which \<open>forEach\<close> visits
  the entries does not show in the result: the registry is updated pointwise.
\<close>

definition updateActiveParams :: "SynthPatch \<Rightarrow> AudioEngine \<Rightarrow> AudioEngine" where
  "updateActiveParams patch this =
     (case audioContext this of
        None \<Rightarrow> this
      | Some c \<Rightarrow>
         (let t = currentTime c;
              this = this\<lparr>activeNotes :=
                            (\<lambda>k. map_option (updateVoice patch t) (activeNotes this k))\<rparr>;
              this =
                (case distortionNode this of
                   Some d \<Rightarrow>
                     this\<lparr>distortionNode :=
                            Some (d\<lparr>curve := Some (makeDistortionCurve (distortionAmount patch)),
                                    oversample := Oversample4x\<rparr>)\<rparr>
                 | None \<Rightarrow> this);
              this =
                (case delayNode this of
                   None \<Rightarrow> this
                 | Some d \<Rightarrow>
                    (case delayFeedbackNode this of
                       None \<Rightarrow> this
                     | Some fb \<Rightarrow>
                        (case delayWetNode this of
                           None \<Rightarrow> this
                         | Some w \<Rightarrow>
                            (let d = d\<lparr>delay_delayTime :=
                                          setTargetAtTime (delayTime patch) t 0.1 (delay_delayTime d)\<rparr>;
                                 fb = fb\<lparr>gain := setTargetAtTime (delayFeedback patch) t 0.1 (gain fb)\<rparr>;
                                 delayWet = (if delayTime patch > 0 then 0.5 else 0);
                                 w = w\<lparr>gain := setTargetAtTime delayWet t 0.1 (gain w)\<rparr>
                             in this\<lparr>delayNode := Some d, delayFeedbackNode := Some fb,
                                     delayWetNode := Some w\<rparr>))));
              this =
                (case reverbDryNode this of
                   None \<Rightarrow> this
                 | Some dryNode \<Rightarrow>
                    (case reverbWetNode this of
                       None \<Rightarrow> this
                     | Some wetNode \<Rightarrow>
                        (let wet = reverbMix patch;
                             dry = 1 - (wet * 0.4);
                             wetNode = wetNode\<lparr>gain := setTargetAtTime wet t 0.1 (gain wetNode)\<rparr>;
                             dryNode = dryNode\<lparr>gain := setTargetAtTime dry t 0.1 (gain dryNode)\<rparr>
                         in this\<lparr>reverbWetNode := Some wetNode, reverbDryNode := Some dryNode\<rparr>)))
          in this))"

subsection \<open>triggerRelease and its deferred cleanup\<close>

text \<open>
  The optional parameter \<open>patch?\<close> is an \<open>option\<close>. The mutations go to the voice
  object the timeout callback captures; the registry entry is deleted last.
\<close>

definition triggerRelease :: "string \<Rightarrow> SynthPatch option \<Rightarrow> AudioEngine \<Rightarrow> AudioEngine" where
  "triggerRelease id' patch this =
     (case audioContext this of
        None \<Rightarrow> this
      | Some c \<Rightarrow>
         (case activeNotes this id' of
            None \<Rightarrow> this
          | Some note \<Rightarrow>
             (let t = currentTime c;
                  releaseTime = (case patch of Some p \<Rightarrow> ampRelease p | None \<Rightarrow> 0.5);
                  g = gain (amp note);
                  g1 = cancelScheduledValues t g;
                  g2 = setValueAtTime (param_value g1) t g1;
                  g3 = exponentialRampToValueAtTime 0.001 (t + releaseTime) g2;
                  note = note\<lparr>amp := (amp note)\<lparr>gain := g3\<rparr>\<rparr>;
                  note = note\<lparr>osc := (osc note)\<lparr>stopTime := Some (t + releaseTime + 0.1)\<rparr>\<rparr>;
                  note = note\<lparr>lfo := (lfo note)\<lparr>stopTime := Some (t + releaseTime + 0.1)\<rparr>\<rparr>;
                  this = this\<lparr>pendingTimeouts :=
                                pendingTimeouts this
                                  @ [\<lparr>delay_ms = (releaseTime + 0.2) * 1000, captured = note\<rparr>]\<rparr>
              in this\<lparr>activeNotes := (activeNotes this)(id' := None)\<rparr>)))"

text \<open>
  The callback handed to \<open>setTimeout\<close>: it disconnects the five captured nodes and
  never looks the identity up again.
\<close>

definition releaseCleanup :: "Voice \<Rightarrow> AudioEngine \<Rightarrow> AudioEngine" where
  "releaseCleanup note this =
     (case audioContext this of
        None \<Rightarrow> this
      | Some c \<Rightarrow>
         (let c = disconnect (osc_id (osc note)) c;
              c = disconnect (flt_id (filter_node note)) c;
              c = disconnect (gain_id (amp note)) c;
              c = disconnect (osc_id (lfo note)) c;
              c = disconnect (gain_id (lfoGain note)) c
          in this\<lparr>audioContext := Some c\<rparr>))"

text \<open>
  When the host fires a pending timeout it runs the callback on the nodes the timeout
  has captured, once: the timeout leaves the queue.
\<close>

definition fireTimeout :: "Timeout \<Rightarrow> AudioEngine \<Rightarrow> AudioEngine" where
  "fireTimeout tm this =
     releaseCleanup (captured tm)
       (this\<lparr>pendingTimeouts := remove1 tm (pendingTimeouts this)\<rparr>)"

subsection \<open>triggerAttack\<close>

text \<open>
  The source reads \<open>this.context\<close> again after \<open>resume()\<close> and \<open>triggerRelease(id)\<close>;
  neither clears the field, so the inner \<open>None\<close> branch is never taken.
\<close>

definition triggerAttack :: "string \<Rightarrow> real \<Rightarrow> SynthPatch \<Rightarrow> AudioEngine \<Rightarrow> AudioEngine" where
  "triggerAttack id' frequency patch this =
     (case audioContext this of
        None \<Rightarrow> this
      | Some _ \<Rightarrow>
         (case masterGain this of
            None \<Rightarrow> this
          | Some mg \<Rightarrow>
             (let this = resume this;
                  this = triggerRelease id' None this
              in (case audioContext this of
                    None \<Rightarrow> this
                  | Some c \<Rightarrow>
                     (let t = currentTime c;
                          (osc0, c) = createOscillator c;
                          (filter0, c) = createBiquadFilter c;
                          (amp0, c) = createGain c;
                          (lfo0, c) = createOscillator c;
                          (lfoGain0, c) = createGain c;
                          osc0 = osc0\<lparr>osc_type := oscType patch\<rparr>;
                          osc0 = osc0\<lparr>osc_frequency := setValueAtTime frequency t (osc_frequency osc0)\<rparr>;
                          filter0 = filter0\<lparr>flt_type := Lowpass\<rparr>;
                          filter0 = filter0\<lparr>flt_frequency :=
                                      setValueAtTime (filterCutoff patch) t (flt_frequency filter0)\<rparr>;
                          filter0 = filter0\<lparr>flt_Q :=
                                      setValueAtTime (filterResonance patch) t (flt_Q filter0)\<rparr>;
                          g = setValueAtTime 0 t (gain amp0);
                          g = linearRampToValueAtTime 1 (t + ampAttack patch) g;
                          g = exponentialRampToValueAtTime (max 0.001 (ampSustain patch))
                                (t + ampAttack patch + ampDecay patch) g;
                          amp0 = amp0\<lparr>gain := g\<rparr>;
                          lfo0 = lfo0\<lparr>osc_type := lfoWaveform patch\<rparr>;
                          lfo0 = lfo0\<lparr>osc_frequency := setValueAtTime (lfoRate patch) t (osc_frequency lfo0)\<rparr>;
                          c = connect (osc_id lfo0) (NodeInput (gain_id lfoGain0)) c;
                          (lfoAmount, c) =
                            (if lfoTarget patch = Cutoff
                             then (lfoDepth patch * 2000,
                                   connect (gain_id lfoGain0) (FrequencyParam (flt_id filter0)) c)
                             else if lfoTarget patch = Pitch
                             then (lfoDepth patch * 100,
                                   connect (gain_id lfoGain0) (DetuneParam (osc_id osc0)) c)
                             else if lfoTarget patch = Amp
                             then (lfoDepth patch * 0.5,
                                   connect (gain_id lfoGain0) (GainParam (gain_id amp0)) c)
                             else (0, c));
                          lfoGain0 = lfoGain0\<lparr>gain := setValueAtTime lfoAmount t (gain lfoGain0)\<rparr>;
                          lfo0 = lfo0\<lparr>startTime := Some t\<rparr>;
                          c = connect (osc_id osc0) (NodeInput (flt_id filter0)) c;
                          c = connect (flt_id filter0) (NodeInput (gain_id amp0)) c;
                          c = connect (gain_id amp0) (NodeInput (gain_id mg)) c;
                          osc0 = osc0\<lparr>startTime := Some t\<rparr>
                      in this\<lparr>audioContext := Some c,
                              activeNotes :=
                                (activeNotes this)
                                  (id' \<mapsto> \<lparr>osc = osc0, filter_node = filter0, amp = amp0,
                                           lfo = lfo0, lfoGain = lfoGain0\<rparr>)\<rparr>)))))"

section \<open>Properties\<close>

subsection \<open>What each method leaves alone, and what it writes\<close>

lemmas create_defs = createGain_def createOscillator_def createBiquadFilter_def
  createWaveShaper_def createDelay_def createConvolver_def createAnalyser_def
  new_AudioParam_def connect_def

lemmas param_defs = setValueAtTime_def linearRampToValueAtTime_def
  exponentialRampToValueAtTime_def setTargetAtTime_def cancelScheduledValues_def

lemma resume_fields [simp]:
  "masterGain (resume this) = masterGain this"
  "activeNotes (resume this) = activeNotes this"
  "pendingTimeouts (resume this) = pendingTimeouts this"
  "distortionNode (resume this) = distortionNode this"
  "delayNode (resume this) = delayNode this"
  "delayFeedbackNode (resume this) = delayFeedbackNode this"
  "delayWetNode (resume this) = delayWetNode this"
  "reverbNode (resume this) = reverbNode this"
  "reverbWetNode (resume this) = reverbWetNode this"
  "reverbDryNode (resume this) = reverbDryNode this"
  "analyser (resume this) = analyser this"
  by (simp_all add: resume_def split: option.splits)

lemma resume_context:
  "audioContext this = Some c \<Longrightarrow>
   \<exists>c'. audioContext (resume this) = Some c' \<and> currentTime c' = currentTime c \<and>
        nextId c' = nextId c \<and> connections c' = connections c \<and> sampleRate c' = sampleRate c"
  by (simp add: resume_def ctx_resume_def)

lemma triggerRelease_fields [simp]:
  "audioContext (triggerRelease id' opt_patch this) = audioContext this"
  "masterGain (triggerRelease id' opt_patch this) = masterGain this"
  "distortionNode (triggerRelease id' opt_patch this) = distortionNode this"
  "delayNode (triggerRelease id' opt_patch this) = delayNode this"
  "delayFeedbackNode (triggerRelease id' opt_patch this) = delayFeedbackNode this"
  "delayWetNode (triggerRelease id' opt_patch this) = delayWetNode this"
  "reverbNode (triggerRelease id' opt_patch this) = reverbNode this"
  "reverbWetNode (triggerRelease id' opt_patch this) = reverbWetNode this"
  "reverbDryNode (triggerRelease id' opt_patch this) = reverbDryNode this"
  "analyser (triggerRelease id' opt_patch this) = analyser this"
  by (simp_all add: triggerRelease_def Let_def split: option.splits)

lemma triggerRelease_activeNotes:
  "audioContext this = Some c \<Longrightarrow>
   activeNotes (triggerRelease id' opt_patch this) = (activeNotes this)(id' := None)"
  by (auto simp: triggerRelease_def Let_def fun_eq_iff split: option.splits)

lemma triggerAttack_voice:
  assumes "audioContext this = Some c" and "masterGain this = Some mg"
  shows "\<exists>v. activeNotes (triggerAttack id' frequency patch this) = (activeNotes this)(id' \<mapsto> v) \<and>
          events (gain (amp v)) =
            [SetValueAtTime 0 (currentTime c),
             LinearRampToValueAtTime 1 (currentTime c + ampAttack patch),
             ExponentialRampToValueAtTime (max 0.001 (ampSustain patch))
               (currentTime c + ampAttack patch + ampDecay patch)] \<and>
          param_value (gain (amp v)) = 1 \<and>
          osc_id (osc v) = nextId c \<and> flt_id (filter_node v) = nextId c + 1 \<and>
          gain_id (amp v) = nextId c + 2 \<and> osc_id (lfo v) = nextId c + 3 \<and>
          gain_id (lfoGain v) = nextId c + 4 \<and>
          startTime (osc v) = Some (currentTime c) \<and> stopTime (osc v) = None \<and>
          startTime (lfo v) = Some (currentTime c) \<and> stopTime (lfo v) = None \<and>
          osc_type (osc v) = oscType patch \<and>
          events (osc_frequency (osc v)) = [SetValueAtTime frequency (currentTime c)] \<and>
          events (gain (lfoGain v)) =
            [SetValueAtTime
               (if lfoTarget patch = Cutoff then lfoDepth patch * 2000
                else if lfoTarget patch = Pitch then lfoDepth patch * 100
                else if lfoTarget patch = Amp then lfoDepth patch * 0.5 else 0)
               (currentTime c)]"
proof -
  obtain c' where c': "audioContext (resume this) = Some c'" "currentTime c' = currentTime c"
    "nextId c' = nextId c"
    using resume_context [OF assms(1)] by blast
  have an: "activeNotes (triggerRelease id' None (resume this)) = (activeNotes this)(id' := None)"
    using triggerRelease_activeNotes [OF c'(1)] by simp
  show ?thesis
    using assms c' an
    apply (simp add: triggerAttack_def Let_def create_defs param_defs split_def)
    apply (intro conjI impI exI)
    apply (rule refl | simp)+
    done
qed

lemma triggerAttack_fields:
  "distortionNode (triggerAttack id' frequency patch this) = distortionNode this"
  "masterGain (triggerAttack id' frequency patch this) = masterGain this"
  "delayNode (triggerAttack id' frequency patch this) = delayNode this"
  "delayFeedbackNode (triggerAttack id' frequency patch this) = delayFeedbackNode this"
  "delayWetNode (triggerAttack id' frequency patch this) = delayWetNode this"
  "reverbNode (triggerAttack id' frequency patch this) = reverbNode this"
  "reverbWetNode (triggerAttack id' frequency patch this) = reverbWetNode this"
  "reverbDryNode (triggerAttack id' frequency patch this) = reverbDryNode this"
  "analyser (triggerAttack id' frequency patch this) = analyser this"
  by (simp_all add: triggerAttack_def Let_def split_def split: option.splits)

lemma triggerRelease_resume:
  "pendingTimeouts (triggerRelease id' opt_patch (resume this)) =
     pendingTimeouts (triggerRelease id' opt_patch this)"
  by (simp add: triggerRelease_def resume_def ctx_resume_def Let_def split: option.splits)

lemma triggerAttack_pendingTimeouts:
  assumes "audioContext this = Some c" and "masterGain this = Some mg"
  shows "pendingTimeouts (triggerAttack id' frequency patch this) =
           pendingTimeouts (triggerRelease id' None this)"
proof -
  obtain c' where c': "audioContext (resume this) = Some c'"
    using resume_context [OF assms(1)] by blast
  show ?thesis
    using assms c' triggerRelease_resume [of id' None this]
    by (simp add: triggerAttack_def Let_def split_def)
qed

lemma triggerAttack_context:
  assumes "audioContext this = Some c" and "masterGain this = Some mg"
  shows "\<exists>c'. audioContext (triggerAttack id' frequency patch this) = Some c' \<and>
           currentTime c' = currentTime c \<and> nextId c' = nextId c + 5"
proof -
  obtain c' where c': "audioContext (resume this) = Some c'" "currentTime c' = currentTime c"
    "nextId c' = nextId c"
    using resume_context [OF assms(1)] by blast
  show ?thesis
    using assms c'
    by (simp add: triggerAttack_def Let_def create_defs split_def)
qed

lemma setMasterVolume_fields:
  "audioContext (setMasterVolume val this) = audioContext this"
  "activeNotes (setMasterVolume val this) = activeNotes this"
  "pendingTimeouts (setMasterVolume val this) = pendingTimeouts this"
  "delayFeedbackNode (setMasterVolume val this) = delayFeedbackNode this"
  "delayWetNode (setMasterVolume val this) = delayWetNode this"
  "reverbWetNode (setMasterVolume val this) = reverbWetNode this"
  "reverbDryNode (setMasterVolume val this) = reverbDryNode this"
  by (simp_all add: setMasterVolume_def split: option.splits)

lemma triggerRelease_effect:
  assumes "audioContext this = Some c" and "activeNotes this id' = Some note"
  shows "triggerRelease id' opt_patch this =
           this\<lparr>pendingTimeouts :=
                  pendingTimeouts this @
                    [\<lparr>delay_ms = ((case opt_patch of Some p \<Rightarrow> ampRelease p | None \<Rightarrow> 0.5) + 0.2) * 1000,
                      captured =
                        note\<lparr>amp := (amp note)\<lparr>gain :=
                                 (gain (amp note))\<lparr>events :=
                                    filter (\<lambda>e. event_time e < currentTime c) (events (gain (amp note))) @
                                      [SetValueAtTime (param_value (gain (amp note))) (currentTime c),
                                       ExponentialRampToValueAtTime 0.001
                                         (currentTime c + (case opt_patch of Some p \<Rightarrow> ampRelease p | None \<Rightarrow> 0.5))]\<rparr>\<rparr>,
                             osc := (osc note)\<lparr>stopTime :=
                                      Some (currentTime c + (case opt_patch of Some p \<Rightarrow> ampRelease p | None \<Rightarrow> 0.5) + 0.1)\<rparr>,
                             lfo := (lfo note)\<lparr>stopTime :=
                                      Some (currentTime c + (case opt_patch of Some p \<Rightarrow> ampRelease p | None \<Rightarrow> 0.5) + 0.1)\<rparr>\<rparr>\<rparr>],
                activeNotes := (activeNotes this)(id' := None)\<rparr>"
  using assms by (simp add: triggerRelease_def Let_def param_defs)

lemma releaseCleanup_fields:
  "activeNotes (releaseCleanup note this) = activeNotes this"
  "pendingTimeouts (releaseCleanup note this) = pendingTimeouts this"
  "masterGain (releaseCleanup note this) = masterGain this"
  by (simp_all add: releaseCleanup_def Let_def split: option.splits)

lemma releaseCleanup_context:
  assumes "audioContext this = Some c"
  shows "audioContext (releaseCleanup note this) =
           Some (c\<lparr>connections :=
                    Set.filter
                      (\<lambda>e. fst e \<notin> {osc_id (osc note), flt_id (filter_node note),
                                      gain_id (amp note), osc_id (lfo note),
                                      gain_id (lfoGain note)})
                      (connections c)\<rparr>)"
proof -
  have "Set.filter (\<lambda>e. fst e \<noteq> gain_id (lfoGain note))
          (Set.filter (\<lambda>e. fst e \<noteq> osc_id (lfo note))
            (Set.filter (\<lambda>e. fst e \<noteq> gain_id (amp note))
              (Set.filter (\<lambda>e. fst e \<noteq> flt_id (filter_node note))
                (Set.filter (\<lambda>e. fst e \<noteq> osc_id (osc note)) (connections c))))) =
        Set.filter
          (\<lambda>e. fst e \<notin> {osc_id (osc note), flt_id (filter_node note),
                          gain_id (amp note), osc_id (lfo note), gain_id (lfoGain note)})
          (connections c)"
    by auto
  then show ?thesis
    using assms by (simp add: releaseCleanup_def Let_def disconnect_def)
qed

lemma fireTimeout_fields:
  "activeNotes (fireTimeout tm this) = activeNotes this"
  "masterGain (fireTimeout tm this) = masterGain this"
  by (simp_all add: fireTimeout_def releaseCleanup_fields)

lemma fireTimeout_context:
  assumes "audioContext this = Some c"
  shows "audioContext (fireTimeout tm this) =
           Some (c\<lparr>connections :=
                    Set.filter
                      (\<lambda>e. fst e \<notin> {osc_id (osc (captured tm)), flt_id (filter_node (captured tm)),
                                      gain_id (amp (captured tm)), osc_id (lfo (captured tm)),
                                      gain_id (lfoGain (captured tm))})
                      (connections c)\<rparr>)"
  using releaseCleanup_context [of "this\<lparr>pendingTimeouts := remove1 tm (pendingTimeouts this)\<rparr>" c "captured tm"] assms
  by (simp add: fireTimeout_def)

lemma triggerAttack_connections:
  assumes "audioContext this = Some c" and "masterGain this = Some mg"
  shows "\<exists>c'. audioContext (triggerAttack id' frequency patch this) = Some c' \<and>
           currentTime c' = currentTime c \<and> nextId c' = nextId c + 5 \<and>
           connections c' =
             {(nextId c + 3, NodeInput (nextId c + 4)),
              (nextId c, NodeInput (nextId c + 1)),
              (nextId c + 1, NodeInput (nextId c + 2)),
              (nextId c + 2, NodeInput (gain_id mg))} \<union>
             (if lfoTarget patch = Cutoff then {(nextId c + 4, FrequencyParam (nextId c + 1))}
              else if lfoTarget patch = Pitch then {(nextId c + 4, DetuneParam (nextId c))}
              else if lfoTarget patch = Amp then {(nextId c + 4, GainParam (nextId c + 2))}
              else {}) \<union>
             connections c"
proof -
  obtain c' where c': "audioContext (resume this) = Some c'" "currentTime c' = currentTime c"
    "nextId c' = nextId c" "connections c' = connections c"
    using resume_context [OF assms(1)] by blast
  show ?thesis
    using assms c'
    apply (simp add: triggerAttack_def Let_def create_defs split_def)
    apply (auto simp: eval_nat_numeral)
    done
qed

lemma updateVoice_frame [simp]:
  "osc (updateVoice patch t v) = osc v"
  "amp (updateVoice patch t v) = amp v"
  by (simp_all add: updateVoice_def Let_def)

lemma updateActiveParams_activeNotes:
  "activeNotes (updateActiveParams patch this) =
     (case audioContext this of
        None \<Rightarrow> activeNotes this
      | Some c \<Rightarrow> (\<lambda>k. map_option (updateVoice patch (currentTime c)) (activeNotes this k)))"
  by (simp add: updateActiveParams_def Let_def split: option.splits)

lemma updateActiveParams_frame:
  "pendingTimeouts (updateActiveParams patch this) = pendingTimeouts this"
  "audioContext (updateActiveParams patch this) = audioContext this"
  "masterGain (updateActiveParams patch this) = masterGain this"
  "reverbNode (updateActiveParams patch this) = reverbNode this"
  "analyser (updateActiveParams patch this) = analyser this"
  by (simp_all add: updateActiveParams_def Let_def split: option.splits)

lemma init_fields:
  assumes "audioContext this = None"
  shows "masterGain (init hwRate hwState rnd this) =
           Some \<lparr>gain_id = 0, gain = \<lparr>param_value = 0.5, events = []\<rparr>\<rparr>"
    and "delayNode (init hwRate hwState rnd this) =
           Some \<lparr>delay_id = 2, maxDelayTime = 5, delay_delayTime = \<lparr>param_value = 0, events = []\<rparr>\<rparr>"
    and "delayFeedbackNode (init hwRate hwState rnd this) =
           Some \<lparr>gain_id = 3, gain = \<lparr>param_value = 1, events = []\<rparr>\<rparr>"
    and "delayWetNode (init hwRate hwState rnd this) =
           Some \<lparr>gain_id = 4, gain = \<lparr>param_value = 1, events = []\<rparr>\<rparr>"
    and "reverbWetNode (init hwRate hwState rnd this) =
           Some \<lparr>gain_id = 6, gain = \<lparr>param_value = 1, events = []\<rparr>\<rparr>"
    and "reverbDryNode (init hwRate hwState rnd this) =
           Some \<lparr>gain_id = 7, gain = \<lparr>param_value = 1, events = []\<rparr>\<rparr>"
    and "distortionNode (init hwRate hwState rnd this) =
           Some \<lparr>shaper_id = 1, curve = None, oversample = OversampleNone\<rparr>"
    and "analyser (init hwRate hwState rnd this) = Some \<lparr>analyser_id = 8, fftSize = 2048\<rparr>"
    and "activeNotes (init hwRate hwState rnd this) = activeNotes this"
    and "pendingTimeouts (init hwRate hwState rnd this) = pendingTimeouts this"
  using assms
  by (simp_all add: init_def Let_def create_defs new_AudioContext_def)

lemma init_context:
  assumes "audioContext this = None"
  shows "audioContext (init hwRate hwState rnd this) =
           Some \<lparr>currentTime = 0, sampleRate = hwRate, ctx_state = hwState, resumeCalls = 0,
                 nextId = 11,
                 connections =
                   {(2, NodeInput 3), (3, NodeInput 2), (0, NodeInput 1), (1, NodeInput 9),
                    (9, NodeInput 2), (2, NodeInput 4), (4, NodeInput 10), (9, NodeInput 10),
                    (10, NodeInput 5), (5, NodeInput 6), (6, NodeInput 8), (10, NodeInput 7),
                    (7, NodeInput 8), (8, ContextDestination)}\<rparr>"
  using assms
  apply (simp add: init_def Let_def create_defs new_AudioContext_def)
  apply (simp add: eval_nat_numeral insert_commute)
  done

lemma init_idempotent:
  "audioContext this = Some c \<Longrightarrow> init hwRate hwState rnd this = this"
  by (simp add: init_def)

subsection \<open>The distortion curve\<close>

lemma curve_length: "length (makeDistortionCurve amount) = n_samples"
  by (simp add: makeDistortionCurve_def Let_def)

lemma curve_zero_nth:
  "i < n_samples \<Longrightarrow> makeDistortionCurve 0 ! i = (real i * 2) / real n_samples - 1"
  by (simp add: makeDistortionCurve_def Let_def)

lemma curve_nth:
  "amount \<noteq> 0 \<Longrightarrow> i < n_samples \<Longrightarrow>
   makeDistortionCurve amount ! i =
     (3 + amount) * ((real i * 2) / real n_samples - 1) * 20 * (pi / 180)
       / (pi + amount * \<bar>(real i * 2) / real n_samples - 1\<bar>)"
  by (simp add: makeDistortionCurve_def Let_def)

lemma sample_point_neg:
  "i \<le> n_samples \<Longrightarrow>
   (real (n_samples - i) * 2) / real n_samples - 1 = - ((real i * 2) / real n_samples - 1)"
  by (simp add: n_samples_def of_nat_diff field_simps)

lemma curve_odd:
  assumes "amount \<noteq> 0" "0 < i" "i < n_samples"
  shows "makeDistortionCurve amount ! (n_samples - i) = - (makeDistortionCurve amount ! i)"
proof -
  define x where "x = (real i * 2) / real n_samples - 1"
  have a: "n_samples - i < n_samples"
    using assms by simp
  have n: "(real (n_samples - i) * 2) / real n_samples - 1 = - x"
    using sample_point_neg [of i] assms by (simp add: x_def)
  have c1: "makeDistortionCurve amount ! i =
              (3 + amount) * x * 20 * (pi / 180) / (pi + amount * \<bar>x\<bar>)"
    using curve_nth [of amount i] assms by (simp add: x_def)
  have c2: "makeDistortionCurve amount ! (n_samples - i) =
              (3 + amount) * (- x) * 20 * (pi / 180) / (pi + amount * \<bar>- x\<bar>)"
    using curve_nth [of amount "n_samples - i"] assms a n by simp
  show ?thesis
    unfolding c1 c2 by simp
qed

text \<open>
  C4. The curve has 44100 entries. For \<open>amount = 0\<close> entry \<open>i\<close> is the sample point
  \<open>x = 2i/N - 1\<close> itself. For \<open>amount > 0\<close> entry \<open>i\<close> is
  \<open>(3 + amount) * x * (20\<pi>/180) / (\<pi> + amount * |x|)\<close>; the entry at the sample point
  \<open>x = 0\<close> (index 22050) is 0; and for \<open>0 < i < N\<close> the sample point of index \<open>N - i\<close>
  is \<open>-x\<close> and its entry is the negation of entry \<open>i\<close>. Stated over the reals, so
  the symmetry is exact.
\<close>

theorem makeDistortionCurve_shape:
  assumes "i < n_samples"
  shows "length (makeDistortionCurve amount) = 44100 \<and>
         makeDistortionCurve 0 ! i = 2 * real i / 44100 - 1 \<and>
         (0 < amount \<longrightarrow>
            makeDistortionCurve amount ! i =
              (3 + amount) * (2 * real i / 44100 - 1) * (20 * pi / 180)
                / (pi + amount * \<bar>2 * real i / 44100 - 1\<bar>) \<and>
            2 * real (22050::nat) / 44100 - 1 = (0::real) \<and>
            makeDistortionCurve amount ! 22050 = 0 \<and>
            (0 < i \<longrightarrow>
               2 * real (44100 - i) / 44100 - 1 = - (2 * real i / 44100 - 1 :: real) \<and>
               makeDistortionCurve amount ! (44100 - i) = - (makeDistortionCurve amount ! i)))"
proof -
  have len: "length (makeDistortionCurve amount) = 44100"
    using curve_length [of amount] by (simp add: n_samples_def)
  have zero: "makeDistortionCurve 0 ! i = 2 * real i / 44100 - 1"
    using curve_zero_nth [OF assms] by (simp add: n_samples_def)
  have shape: "makeDistortionCurve amount ! i =
                 (3 + amount) * (2 * real i / 44100 - 1) * (20 * pi / 180)
                   / (pi + amount * \<bar>2 * real i / 44100 - 1\<bar>)" if "0 < amount"
    using curve_nth [of amount i] assms that by (simp add: n_samples_def mult.commute)
  have centre: "makeDistortionCurve amount ! 22050 = 0" if "0 < amount"
    using curve_nth [of amount 22050] that by (simp add: n_samples_def)
  have point: "2 * real (44100 - i) / 44100 - 1 = - (2 * real i / 44100 - 1 :: real)"
    using sample_point_neg [of i] assms by (simp add: n_samples_def mult.commute)
  have odd: "makeDistortionCurve amount ! (44100 - i) = - (makeDistortionCurve amount ! i)"
    if "0 < amount" "0 < i"
    using curve_odd [of amount i] assms that by (simp add: n_samples_def)
  show ?thesis
    using len zero shape centre point odd by simp
qed

theorem makeDistortionCurve_shape_witness:
  "length (makeDistortionCurve 50) = 44100 \<and>
   makeDistortionCurve 0 ! 11025 = - (1 / 2) \<and>
   makeDistortionCurve 50 ! 11025 = 53 * (- (1 / 2)) * (20 * pi / 180) / (pi + 25) \<and>
   makeDistortionCurve 50 ! 22050 = 0 \<and>
   makeDistortionCurve 50 ! 33075 = - (makeDistortionCurve 50 ! 11025)"
  using makeDistortionCurve_shape [of 11025 50] by (simp add: n_samples_def)

subsection \<open>Calls that find nothing to do\<close>

text \<open>
  C6. While the context field is still null, \<open>triggerAttack\<close>, \<open>triggerRelease\<close>,
  \<open>updateActiveParams\<close> and \<open>setMasterVolume\<close> give the engine state back
  unchanged. The freshly constructed engine is in that situation, and its
  \<open>getAnalyser\<close> returns null.
\<close>

theorem calls_before_init_are_noops:
  "(audioContext this = None \<longrightarrow>
      triggerAttack id' frequency patch this = this \<and>
      triggerRelease id' opt_patch this = this \<and>
      updateActiveParams patch this = this \<and>
      setMasterVolume val this = this) \<and>
   audioContext new_AudioEngine = None \<and>
   getAnalyser new_AudioEngine = None"
  by (simp add: triggerAttack_def triggerRelease_def updateActiveParams_def
        setMasterVolume_def getAnalyser_def new_AudioEngine_def split: option.splits)

theorem calls_before_init_are_noops_witness:
  "triggerAttack ''60'' 440 DEFAULT_PATCH new_AudioEngine = new_AudioEngine \<and>
   triggerRelease ''60'' (Some DEFAULT_PATCH) new_AudioEngine = new_AudioEngine \<and>
   triggerRelease ''60'' None new_AudioEngine = new_AudioEngine \<and>
   updateActiveParams DEFAULT_PATCH new_AudioEngine = new_AudioEngine \<and>
   setMasterVolume 0.8 new_AudioEngine = new_AudioEngine \<and>
   getAnalyser new_AudioEngine = None"
  using calls_before_init_are_noops
          [of new_AudioEngine "''60''" 440 DEFAULT_PATCH "Some DEFAULT_PATCH" "0.8"]
        calls_before_init_are_noops
          [of new_AudioEngine "''60''" 440 DEFAULT_PATCH None "0.8"]
  by simp

lemma new_engine_uninit: "audioContext new_AudioEngine = None"
  by (simp add: new_AudioEngine_def)

lemma new_engine_registry: "activeNotes new_AudioEngine = Map.empty"
  by (simp add: new_AudioEngine_def)

lemma new_engine_timeouts: "pendingTimeouts new_AudioEngine = []"
  by (simp add: new_AudioEngine_def)

text \<open>
  C7. When no voice is registered under the identity, \<open>triggerRelease\<close> returns the
  engine state it was given: the registry, the shared nodes, the context and the timeout
  queue are all unchanged. It holds with and without a patch, and whether or not the
  engine is initialised.
\<close>

theorem triggerRelease_unknown_id:
  "activeNotes this id' = None \<Longrightarrow> triggerRelease id' opt_patch this = this"
  by (simp add: triggerRelease_def split: option.splits)

theorem triggerRelease_unknown_id_witness:
  "audioContext (triggerAttack ''69'' 440 DEFAULT_PATCH
      (init 44100 Running (\<lambda>k. 1 / 2) new_AudioEngine)) \<noteq> None \<and>
   activeNotes (triggerAttack ''69'' 440 DEFAULT_PATCH
      (init 44100 Running (\<lambda>k. 1 / 2) new_AudioEngine)) ''69'' \<noteq> None \<and>
   triggerRelease ''60'' (Some DEFAULT_PATCH)
     (triggerAttack ''69'' 440 DEFAULT_PATCH
        (init 44100 Running (\<lambda>k. 1 / 2) new_AudioEngine)) =
     triggerAttack ''69'' 440 DEFAULT_PATCH
       (init 44100 Running (\<lambda>k. 1 / 2) new_AudioEngine) \<and>
   triggerRelease ''60'' None
     (triggerAttack ''69'' 440 DEFAULT_PATCH
        (init 44100 Running (\<lambda>k. 1 / 2) new_AudioEngine)) =
     triggerAttack ''69'' 440 DEFAULT_PATCH
       (init 44100 Running (\<lambda>k. 1 / 2) new_AudioEngine)"
proof -
  let ?s0 = "init 44100 Running (\<lambda>k. 1 / 2) new_AudioEngine"
  let ?s1 = "triggerAttack ''69'' 440 DEFAULT_PATCH ?s0"
  note c = init_context [OF new_engine_uninit, of 44100 Running "\<lambda>k. 1 / 2"]
  note mg = init_fields(1) [OF new_engine_uninit, of 44100 Running "\<lambda>k. 1 / 2"]
  obtain v where v: "activeNotes ?s1 = (activeNotes ?s0)(''69'' \<mapsto> v)"
    using triggerAttack_voice [OF c mg, of "''69''" 440 DEFAULT_PATCH] by blast
  obtain c' where c': "audioContext ?s1 = Some c'"
    using triggerAttack_context [OF c mg, of "''69''" 440 DEFAULT_PATCH] by blast
  have none: "activeNotes ?s1 ''60'' = None"
    using v by (simp add: init_fields(9) [OF new_engine_uninit] new_engine_registry)
  show ?thesis
    using triggerRelease_unknown_id [OF none, of "Some DEFAULT_PATCH"]
          triggerRelease_unknown_id [OF none, of None] c' v
    by simp
qed

subsection \<open>Live parameter updates\<close>

lemma updateVoice_ids [simp]:
  "flt_id (filter_node (updateVoice patch t v)) = flt_id (filter_node v)"
  "osc_id (lfo (updateVoice patch t v)) = osc_id (lfo v)"
  "gain_id (lfoGain (updateVoice patch t v)) = gain_id (lfoGain v)"
  by (simp_all add: updateVoice_def Let_def)

text \<open>
  C8. \<open>updateActiveParams\<close> leaves the set of registered identities as it was. It
  does not touch the context (so no node is created and no connection changes), the
  timeout queue, the master gain, the convolver or the analyser; and in every
  registered voice the oscillator and the amplitude gain are unchanged and the filter,
  the LFO and the LFO depth gain are still the same nodes.
\<close>

theorem updateActiveParams_keeps_registry:
  "dom (activeNotes (updateActiveParams patch this)) = dom (activeNotes this) \<and>
   pendingTimeouts (updateActiveParams patch this) = pendingTimeouts this \<and>
   audioContext (updateActiveParams patch this) = audioContext this \<and>
   masterGain (updateActiveParams patch this) = masterGain this \<and>
   reverbNode (updateActiveParams patch this) = reverbNode this \<and>
   analyser (updateActiveParams patch this) = analyser this \<and>
   map_option osc (activeNotes (updateActiveParams patch this) k) =
     map_option osc (activeNotes this k) \<and>
   map_option amp (activeNotes (updateActiveParams patch this) k) =
     map_option amp (activeNotes this k) \<and>
   map_option (\<lambda>v. flt_id (filter_node v)) (activeNotes (updateActiveParams patch this) k) =
     map_option (\<lambda>v. flt_id (filter_node v)) (activeNotes this k) \<and>
   map_option (\<lambda>v. osc_id (lfo v)) (activeNotes (updateActiveParams patch this) k) =
     map_option (\<lambda>v. osc_id (lfo v)) (activeNotes this k) \<and>
   map_option (\<lambda>v. gain_id (lfoGain v)) (activeNotes (updateActiveParams patch this) k) =
     map_option (\<lambda>v. gain_id (lfoGain v)) (activeNotes this k)"
proof -
  have d: "dom (activeNotes (updateActiveParams patch this)) = dom (activeNotes this)"
    by (auto simp: updateActiveParams_activeNotes dom_def split: option.splits)
  have o: "map_option osc (activeNotes (updateActiveParams patch this) k) =
             map_option osc (activeNotes this k)"
    by (simp add: updateActiveParams_activeNotes option.map_comp comp_def split: option.splits)
  have a: "map_option amp (activeNotes (updateActiveParams patch this) k) =
             map_option amp (activeNotes this k)"
    by (simp add: updateActiveParams_activeNotes option.map_comp comp_def split: option.splits)
  have i: "map_option (\<lambda>v. flt_id (filter_node v)) (activeNotes (updateActiveParams patch this) k) =
             map_option (\<lambda>v. flt_id (filter_node v)) (activeNotes this k)"
          "map_option (\<lambda>v. osc_id (lfo v)) (activeNotes (updateActiveParams patch this) k) =
             map_option (\<lambda>v. osc_id (lfo v)) (activeNotes this k)"
          "map_option (\<lambda>v. gain_id (lfoGain v)) (activeNotes (updateActiveParams patch this) k) =
             map_option (\<lambda>v. gain_id (lfoGain v)) (activeNotes this k)"
    by (simp_all add: updateActiveParams_activeNotes option.map_comp comp_def
          split: option.splits)
  show ?thesis
    using d o a i by (simp add: updateActiveParams_frame)
qed

text \<open>
  C5. On an engine whose context and reverb gains exist, \<open>updateActiveParams\<close> appends
  to the reverb wet gain a \<open>setTargetAtTime\<close> towards \<open>reverbMix\<close> and to the reverb dry
  gain one towards \<open>1 - 0.4 * reverbMix\<close>, both at the current time with time constant
  0.1. Nothing restricts \<open>reverbMix\<close> to \<open>[0, 1]\<close>.
\<close>

theorem updateActiveParams_reverb_mix:
  assumes "audioContext this = Some c"
      and "reverbWetNode this = Some wetNode"
      and "reverbDryNode this = Some dryNode"
  shows "reverbWetNode (updateActiveParams patch this) =
           Some (wetNode\<lparr>gain := (gain wetNode)\<lparr>events :=
                   events (gain wetNode) @
                     [SetTargetAtTime (reverbMix patch) (currentTime c) 0.1]\<rparr>\<rparr>) \<and>
         reverbDryNode (updateActiveParams patch this) =
           Some (dryNode\<lparr>gain := (gain dryNode)\<lparr>events :=
                   events (gain dryNode) @
                     [SetTargetAtTime (1 - 0.4 * reverbMix patch) (currentTime c) 0.1]\<rparr>\<rparr>)"
  using assms
  by (simp add: updateActiveParams_def Let_def param_defs split: option.splits)

theorem updateActiveParams_reverb_mix_witness:
  "reverbWetNode (updateActiveParams (DEFAULT_PATCH\<lparr>reverbMix := 0.5\<rparr>)
      (init 44100 Running (\<lambda>k. 1 / 2) new_AudioEngine)) =
     Some \<lparr>gain_id = 6, gain = \<lparr>param_value = 1, events = [SetTargetAtTime 0.5 0 0.1]\<rparr>\<rparr> \<and>
   reverbDryNode (updateActiveParams (DEFAULT_PATCH\<lparr>reverbMix := 0.5\<rparr>)
      (init 44100 Running (\<lambda>k. 1 / 2) new_AudioEngine)) =
     Some \<lparr>gain_id = 7, gain = \<lparr>param_value = 1, events = [SetTargetAtTime 0.8 0 0.1]\<rparr>\<rparr>"
proof -
  note c = init_context [OF new_engine_uninit, of 44100 Running "\<lambda>k. 1 / 2"]
  note w = init_fields(5) [OF new_engine_uninit, of 44100 Running "\<lambda>k. 1 / 2"]
  note d = init_fields(6) [OF new_engine_uninit, of 44100 Running "\<lambda>k. 1 / 2"]
  show ?thesis
    using updateActiveParams_reverb_mix [OF c w d, of "DEFAULT_PATCH\<lparr>reverbMix := 0.5\<rparr>"]
    by (simp add: DEFAULT_PATCH_def)
qed

subsection \<open>The shared graph after init\<close>

text \<open>
  C9. After \<open>init\<close> on an engine without a context, the master gain has value 0.5 and
  the delay feedback, delay wet, reverb wet and reverb dry gains have the value a gain
  node is created with, 1, with nothing scheduled on them. The delay line (node 2) and
  the feedback gain (node 3) are connected in a loop, and the feedback value 1 is not
  in \<open>[0, 0.95)\<close>. \<open>triggerAttack\<close>, \<open>triggerRelease\<close> and \<open>setMasterVolume\<close> leave
  these four gain nodes as they find them, so the values stand until
  \<open>updateActiveParams\<close> is called.
\<close>

theorem init_effect_gains_default:
  assumes "audioContext this = None"
  shows "masterGain (init hwRate hwState rnd this) =
           Some \<lparr>gain_id = 0, gain = \<lparr>param_value = 0.5, events = []\<rparr>\<rparr> \<and>
         map_option (\<lambda>n. (param_value (gain n), events (gain n)))
             (delayFeedbackNode (init hwRate hwState rnd this)) = Some (1, []) \<and>
         map_option (\<lambda>n. (param_value (gain n), events (gain n)))
             (delayWetNode (init hwRate hwState rnd this)) = Some (1, []) \<and>
         map_option (\<lambda>n. (param_value (gain n), events (gain n)))
             (reverbWetNode (init hwRate hwState rnd this)) = Some (1, []) \<and>
         map_option (\<lambda>n. (param_value (gain n), events (gain n)))
             (reverbDryNode (init hwRate hwState rnd this)) = Some (1, []) \<and>
         map_option (\<lambda>n. 0 \<le> param_value (gain n) \<and> param_value (gain n) < 0.95)
             (delayFeedbackNode (init hwRate hwState rnd this)) = Some False \<and>
         map_option (\<lambda>c. (2, NodeInput 3) \<in> connections c \<and> (3, NodeInput 2) \<in> connections c)
             (audioContext (init hwRate hwState rnd this)) = Some True \<and>
         map_option delay_id (delayNode (init hwRate hwState rnd this)) = Some 2 \<and>
         map_option gain_id (delayFeedbackNode (init hwRate hwState rnd this)) = Some 3 \<and>
         delayFeedbackNode (triggerAttack id' frequency patch s) = delayFeedbackNode s \<and>
         delayWetNode (triggerAttack id' frequency patch s) = delayWetNode s \<and>
         reverbWetNode (triggerAttack id' frequency patch s) = reverbWetNode s \<and>
         reverbDryNode (triggerAttack id' frequency patch s) = reverbDryNode s \<and>
         delayFeedbackNode (triggerRelease id' opt_patch s) = delayFeedbackNode s \<and>
         delayWetNode (triggerRelease id' opt_patch s) = delayWetNode s \<and>
         reverbWetNode (triggerRelease id' opt_patch s) = reverbWetNode s \<and>
         reverbDryNode (triggerRelease id' opt_patch s) = reverbDryNode s \<and>
         delayFeedbackNode (setMasterVolume val s) = delayFeedbackNode s \<and>
         delayWetNode (setMasterVolume val s) = delayWetNode s \<and>
         reverbWetNode (setMasterVolume val s) = reverbWetNode s \<and>
         reverbDryNode (setMasterVolume val s) = reverbDryNode s"
  by (simp add: init_fields [OF assms] init_context [OF assms] triggerAttack_fields
        setMasterVolume_fields)

theorem init_effect_gains_default_witness:
  "masterGain (init 44100 Running (\<lambda>k. 1 / 2) new_AudioEngine) =
     Some \<lparr>gain_id = 0, gain = \<lparr>param_value = 0.5, events = []\<rparr>\<rparr> \<and>
   delayFeedbackNode (init 44100 Running (\<lambda>k. 1 / 2) new_AudioEngine) =
     Some \<lparr>gain_id = 3, gain = \<lparr>param_value = 1, events = []\<rparr>\<rparr> \<and>
   map_option (\<lambda>n. (param_value (gain n), events (gain n)))
     (delayWetNode (init 44100 Running (\<lambda>k. 1 / 2) new_AudioEngine)) = Some (1, []) \<and>
   map_option (\<lambda>n. (param_value (gain n), events (gain n)))
     (reverbWetNode (init 44100 Running (\<lambda>k. 1 / 2) new_AudioEngine)) = Some (1, []) \<and>
   map_option (\<lambda>n. (param_value (gain n), events (gain n)))
     (reverbDryNode (init 44100 Running (\<lambda>k. 1 / 2) new_AudioEngine)) = Some (1, [])"
  using init_effect_gains_default [OF new_engine_uninit, of 44100 Running "\<lambda>k. 1 / 2"]
        init_fields(3) [OF new_engine_uninit, of 44100 Running "\<lambda>k. 1 / 2"]
  by simp

subsection \<open>The envelope of a voice\<close>

text \<open>
  C2. On an engine with a context and a master gain, \<open>triggerAttack\<close> registers under
  the identity a voice whose amplitude gain carries exactly three scheduled changes:
  value 0 at the current time \<open>t\<close>, a linear ramp to 1 ending at \<open>t + ampAttack\<close>, and
  an exponential ramp to \<open>max(0.001, ampSustain)\<close> ending at
  \<open>t + ampAttack + ampDecay\<close>. The ramp to the sustain level is the last entry, and
  neither \<open>updateActiveParams\<close> nor \<open>setMasterVolume\<close> schedules anything on that
  gain afterwards: only a release does.
\<close>

theorem triggerAttack_envelope:
  assumes "audioContext this = Some c" and "masterGain this = Some mg"
  shows "map_option (\<lambda>v. events (gain (amp v)))
           (activeNotes (triggerAttack id' frequency patch this) id') =
           Some [SetValueAtTime 0 (currentTime c),
                 LinearRampToValueAtTime 1 (currentTime c + ampAttack patch),
                 ExponentialRampToValueAtTime (max 0.001 (ampSustain patch))
                   (currentTime c + ampAttack patch + ampDecay patch)] \<and>
         map_option amp
           (activeNotes (updateActiveParams patch' (triggerAttack id' frequency patch this)) id') =
           map_option amp (activeNotes (triggerAttack id' frequency patch this) id') \<and>
         activeNotes (setMasterVolume val (triggerAttack id' frequency patch this)) id' =
           activeNotes (triggerAttack id' frequency patch this) id'"
proof -
  obtain v where v: "activeNotes (triggerAttack id' frequency patch this) = (activeNotes this)(id' \<mapsto> v)"
    "events (gain (amp v)) =
            [SetValueAtTime 0 (currentTime c),
             LinearRampToValueAtTime 1 (currentTime c + ampAttack patch),
             ExponentialRampToValueAtTime (max 0.001 (ampSustain patch))
               (currentTime c + ampAttack patch + ampDecay patch)]"
    using triggerAttack_voice [OF assms, of id' frequency patch] by blast
  have u: "map_option amp
           (activeNotes (updateActiveParams patch' (triggerAttack id' frequency patch this)) id') =
           map_option amp (activeNotes (triggerAttack id' frequency patch this) id')"
    by (simp add: updateActiveParams_activeNotes option.map_comp comp_def split: option.splits)
  show ?thesis
    using v u by (simp add: setMasterVolume_fields)
qed

theorem triggerAttack_envelope_witness:
  "map_option (\<lambda>v. events (gain (amp v)))
     (activeNotes (triggerAttack ''60'' 261.63 DEFAULT_PATCH
        (init 44100 Running (\<lambda>k. 1 / 2) new_AudioEngine)) ''60'') =
     Some [SetValueAtTime 0 0, LinearRampToValueAtTime 1 0.1,
           ExponentialRampToValueAtTime 0.7 0.3]"
proof -
  note c = init_context [OF new_engine_uninit, of 44100 Running "\<lambda>k. 1 / 2"]
  note mg = init_fields(1) [OF new_engine_uninit, of 44100 Running "\<lambda>k. 1 / 2"]
  show ?thesis
    using triggerAttack_envelope [OF c mg, of "''60''" "261.63" DEFAULT_PATCH]
    by (simp add: DEFAULT_PATCH_def)
qed

text \<open>
  C3. \<open>triggerRelease\<close> on an identity with a registered voice, with \<open>releaseTime\<close> the
  patch's \<open>ampRelease\<close> or 0.5 when no patch is given and \<open>t\<close> the current time:
  the voice's amplitude gain loses every scheduled change at \<open>t\<close> or later, then gets
  its current value set at \<open>t\<close> and an exponential ramp to 0.001 ending at
  \<open>t + releaseTime\<close>; oscillator and LFO are stopped at \<open>t + releaseTime + 0.1\<close>; one
  timeout of \<open>(releaseTime + 0.2) * 1000\<close> milliseconds is queued, holding these same
  five nodes; and the identity is gone from the registry when the call returns, while
  the context, and with it every connection, is as before. The disconnection happens
  only when that timeout fires: its callback removes every outgoing connection of the
  five nodes, keeps all other connections, and leaves the registry as the call left it.
\<close>

theorem triggerRelease_schedule:
  assumes "audioContext this = Some c"
      and "activeNotes this id' = Some note"
      and "releaseTime = (case opt_patch of Some p \<Rightarrow> ampRelease p | None \<Rightarrow> 0.5)"
  shows "\<exists>note'.
           triggerRelease id' opt_patch this =
             this\<lparr>pendingTimeouts :=
                    pendingTimeouts this @
                      [\<lparr>delay_ms = (releaseTime + 0.2) * 1000, captured = note'\<rparr>],
                  activeNotes := (activeNotes this)(id' := None)\<rparr> \<and>
           events (gain (amp note')) =
             filter (\<lambda>e. event_time e < currentTime c) (events (gain (amp note))) @
               [SetValueAtTime (param_value (gain (amp note))) (currentTime c),
                ExponentialRampToValueAtTime 0.001 (currentTime c + releaseTime)] \<and>
           stopTime (osc note') = Some (currentTime c + releaseTime + 0.1) \<and>
           stopTime (lfo note') = Some (currentTime c + releaseTime + 0.1) \<and>
           osc_id (osc note') = osc_id (osc note) \<and>
           flt_id (filter_node note') = flt_id (filter_node note) \<and>
           gain_id (amp note') = gain_id (amp note) \<and>
           osc_id (lfo note') = osc_id (lfo note) \<and>
           gain_id (lfoGain note') = gain_id (lfoGain note) \<and>
           activeNotes (triggerRelease id' opt_patch this) id' = None \<and>
           audioContext (triggerRelease id' opt_patch this) = Some c \<and>
           audioContext
             (fireTimeout \<lparr>delay_ms = (releaseTime + 0.2) * 1000, captured = note'\<rparr>
                (triggerRelease id' opt_patch this)) =
             Some (c\<lparr>connections :=
                      Set.filter
                        (\<lambda>e. fst e \<notin> {osc_id (osc note), flt_id (filter_node note),
                                        gain_id (amp note), osc_id (lfo note),
                                        gain_id (lfoGain note)})
                        (connections c)\<rparr>) \<and>
           activeNotes
             (fireTimeout \<lparr>delay_ms = (releaseTime + 0.2) * 1000, captured = note'\<rparr>
                (triggerRelease id' opt_patch this)) =
             (activeNotes this)(id' := None)"
proof -
  let ?s = "triggerRelease id' opt_patch this"
  have ctx: "audioContext ?s = Some c"
    using assms(1) by simp
  have reg: "activeNotes ?s = (activeNotes this)(id' := None)"
    using triggerRelease_activeNotes [OF assms(1)] by simp
  note fire = fireTimeout_context [OF ctx] fireTimeout_fields(1) [of _ ?s]
  show ?thesis
    unfolding fire reg
    unfolding triggerRelease_effect [OF assms(1,2), of opt_patch] assms(3)
    apply (intro exI conjI)
    apply (rule refl | simp add: assms)+
    done
qed

theorem triggerRelease_schedule_witness:
  "activeNotes
     (triggerRelease ''60'' (Some DEFAULT_PATCH)
           ((triggerAttack ''60'' 261.63 DEFAULT_PATCH
               (init 44100 Running (\<lambda>k. 1 / 2) new_AudioEngine))
            \<lparr>audioContext :=
               map_option (\<lambda>c. c\<lparr>currentTime := 0.2\<rparr>)
                 (audioContext
                    (triggerAttack ''60'' 261.63 DEFAULT_PATCH
                       (init 44100 Running (\<lambda>k. 1 / 2) new_AudioEngine)))\<rparr>)) ''60'' = None \<and>
   map (\<lambda>tm. (delay_ms tm, stopTime (osc (captured tm)), stopTime (lfo (captured tm)),
               events (gain (amp (captured tm)))))
     (pendingTimeouts
        (triggerRelease ''60'' (Some DEFAULT_PATCH)
           ((triggerAttack ''60'' 261.63 DEFAULT_PATCH
               (init 44100 Running (\<lambda>k. 1 / 2) new_AudioEngine))
            \<lparr>audioContext :=
               map_option (\<lambda>c. c\<lparr>currentTime := 0.2\<rparr>)
                 (audioContext
                    (triggerAttack ''60'' 261.63 DEFAULT_PATCH
                       (init 44100 Running (\<lambda>k. 1 / 2) new_AudioEngine)))\<rparr>))) =
     [(1200, Some 1.3, Some 1.3,
       [SetValueAtTime 0 0, LinearRampToValueAtTime 1 0.1, SetValueAtTime 1 0.2,
        ExponentialRampToValueAtTime 0.001 1.2])] \<and>
   map_option
     (\<lambda>c. ((11, NodeInput 12) \<in> connections c, (12, NodeInput 13) \<in> connections c,
             (13, NodeInput 0) \<in> connections c, (14, NodeInput 15) \<in> connections c,
             (0, NodeInput 1) \<in> connections c, (2, NodeInput 3) \<in> connections c))
     (audioContext
        (triggerRelease ''60'' (Some DEFAULT_PATCH)
           ((triggerAttack ''60'' 261.63 DEFAULT_PATCH
               (init 44100 Running (\<lambda>k. 1 / 2) new_AudioEngine))
            \<lparr>audioContext :=
               map_option (\<lambda>c. c\<lparr>currentTime := 0.2\<rparr>)
                 (audioContext
                    (triggerAttack ''60'' 261.63 DEFAULT_PATCH
                       (init 44100 Running (\<lambda>k. 1 / 2) new_AudioEngine)))\<rparr>))) =
     Some (True, True, True, True, True, True) \<and>
   map (\<lambda>tm. map_option
         (\<lambda>c. ((11, NodeInput 12) \<in> connections c, (12, NodeInput 13) \<in> connections c,
             (13, NodeInput 0) \<in> connections c, (14, NodeInput 15) \<in> connections c,
             (0, NodeInput 1) \<in> connections c, (2, NodeInput 3) \<in> connections c))
         (audioContext
            (fireTimeout tm
               (triggerRelease ''60'' (Some DEFAULT_PATCH)
           ((triggerAttack ''60'' 261.63 DEFAULT_PATCH
               (init 44100 Running (\<lambda>k. 1 / 2) new_AudioEngine))
            \<lparr>audioContext :=
               map_option (\<lambda>c. c\<lparr>currentTime := 0.2\<rparr>)
                 (audioContext
                    (triggerAttack ''60'' 261.63 DEFAULT_PATCH
                       (init 44100 Running (\<lambda>k. 1 / 2) new_AudioEngine)))\<rparr>)))))
     (pendingTimeouts
        (triggerRelease ''60'' (Some DEFAULT_PATCH)
           ((triggerAttack ''60'' 261.63 DEFAULT_PATCH
               (init 44100 Running (\<lambda>k. 1 / 2) new_AudioEngine))
            \<lparr>audioContext :=
               map_option (\<lambda>c. c\<lparr>currentTime := 0.2\<rparr>)
                 (audioContext
                    (triggerAttack ''60'' 261.63 DEFAULT_PATCH
                       (init 44100 Running (\<lambda>k. 1 / 2) new_AudioEngine)))\<rparr>))) =
     [Some (False, False, False, False, True, True)]"
proof -
  let ?s0 = "init 44100 Running (\<lambda>k. 1 / 2) new_AudioEngine"
  let ?s1 = "triggerAttack ''60'' 261.63 DEFAULT_PATCH ?s0"
  note c0 = init_context [OF new_engine_uninit, of 44100 Running "\<lambda>k. 1 / 2"]
  note mg = init_fields(1) [OF new_engine_uninit, of 44100 Running "\<lambda>k. 1 / 2"]
  obtain v where v: "activeNotes ?s1 = (activeNotes ?s0)(''60'' \<mapsto> v)"
    "events (gain (amp v)) =
       [SetValueAtTime 0 0, LinearRampToValueAtTime 1 (0 + ampAttack DEFAULT_PATCH),
        ExponentialRampToValueAtTime (max 0.001 (ampSustain DEFAULT_PATCH))
          (0 + ampAttack DEFAULT_PATCH + ampDecay DEFAULT_PATCH)]"
    "param_value (gain (amp v)) = 1"
    "osc_id (osc v) = 11" "flt_id (filter_node v) = 12" "gain_id (amp v) = 13"
    "osc_id (lfo v) = 14" "gain_id (lfoGain v) = 15"
    using triggerAttack_voice [OF c0 mg, of "''60''" "261.63" DEFAULT_PATCH] by auto
  obtain c where c: "audioContext ?s1 = Some c"
    and cc: "connections c =
             {(11 + 3, NodeInput (11 + 4)), (11, NodeInput (11 + 1)),
              (11 + 1, NodeInput (11 + 2)),
              (11 + 2, NodeInput (gain_id \<lparr>gain_id = 0, gain = \<lparr>param_value = 0.5, events = []\<rparr>\<rparr>))} \<union>
             (if lfoTarget DEFAULT_PATCH = Cutoff then {(11 + 4, FrequencyParam (11 + 1))}
              else if lfoTarget DEFAULT_PATCH = Pitch then {(11 + 4, DetuneParam 11)}
              else if lfoTarget DEFAULT_PATCH = Amp then {(11 + 4, GainParam (11 + 2))}
              else {}) \<union>
             {(2, NodeInput 3), (3, NodeInput 2), (0, NodeInput 1), (1, NodeInput 9),
              (9, NodeInput 2), (2, NodeInput 4), (4, NodeInput 10), (9, NodeInput 10),
              (10, NodeInput 5), (5, NodeInput 6), (6, NodeInput 8), (10, NodeInput 7),
              (7, NodeInput 8), (8, ContextDestination)}"
    using triggerAttack_connections [OF c0 mg, of "''60''" "261.63" DEFAULT_PATCH]
    unfolding AudioContext.simps by (elim exE conjE) blast
  have m: "(11, NodeInput 12) \<in> connections c" "(12, NodeInput 13) \<in> connections c"
      "(13, NodeInput 0) \<in> connections c" "(14, NodeInput 15) \<in> connections c"
      "(0, NodeInput 1) \<in> connections c" "(2, NodeInput 3) \<in> connections c"
    unfolding cc by simp_all
  let ?s = "?s1\<lparr>audioContext := map_option (\<lambda>c. c\<lparr>currentTime := 0.2\<rparr>) (audioContext ?s1)\<rparr>"
  have ctx: "audioContext ?s = Some (c\<lparr>currentTime := 0.2\<rparr>)"
    using c by simp
  have reg: "activeNotes ?s ''60'' = Some v"
    using v(1) by simp
  have tm: "pendingTimeouts ?s = []"
    using triggerAttack_pendingTimeouts [OF c0 mg, of "''60''" "261.63" DEFAULT_PATCH]
    by (simp add: triggerRelease_def init_fields [OF new_engine_uninit] c0
          new_engine_registry new_engine_timeouts)
  have rt: "ampRelease DEFAULT_PATCH =
              (case Some DEFAULT_PATCH of Some p \<Rightarrow> ampRelease p | None \<Rightarrow> 0.5)"
    by simp
  obtain note' where n:
    "triggerRelease ''60'' (Some DEFAULT_PATCH) ?s =
       ?s\<lparr>pendingTimeouts :=
             pendingTimeouts ?s @
               [\<lparr>delay_ms = (ampRelease DEFAULT_PATCH + 0.2) * 1000, captured = note'\<rparr>],
           activeNotes := (activeNotes ?s)(''60'' := None)\<rparr>"
    "events (gain (amp note')) =
       filter (\<lambda>e. event_time e < currentTime (c\<lparr>currentTime := 0.2\<rparr>)) (events (gain (amp v))) @
         [SetValueAtTime (param_value (gain (amp v))) (currentTime (c\<lparr>currentTime := 0.2\<rparr>)),
          ExponentialRampToValueAtTime 0.001
            (currentTime (c\<lparr>currentTime := 0.2\<rparr>) + ampRelease DEFAULT_PATCH)]"
    "stopTime (osc note') = Some (currentTime (c\<lparr>currentTime := 0.2\<rparr>) + ampRelease DEFAULT_PATCH + 0.1)"
    "stopTime (lfo note') = Some (currentTime (c\<lparr>currentTime := 0.2\<rparr>) + ampRelease DEFAULT_PATCH + 0.1)"
    "audioContext (triggerRelease ''60'' (Some DEFAULT_PATCH) ?s) = Some (c\<lparr>currentTime := 0.2\<rparr>)"
    "audioContext
       (fireTimeout \<lparr>delay_ms = (ampRelease DEFAULT_PATCH + 0.2) * 1000, captured = note'\<rparr>
          (triggerRelease ''60'' (Some DEFAULT_PATCH) ?s)) =
       Some (c\<lparr>currentTime := 0.2\<rparr>
              \<lparr>connections :=
                 Set.filter
                   (\<lambda>e. fst e \<notin> {osc_id (osc v), flt_id (filter_node v), gain_id (amp v),
                                   osc_id (lfo v), gain_id (lfoGain v)})
                   (connections (c\<lparr>currentTime := 0.2\<rparr>))\<rparr>)"
    using triggerRelease_schedule [OF ctx reg rt] by blast
  have p: "pendingTimeouts (triggerRelease ''60'' (Some DEFAULT_PATCH) ?s) =
             [\<lparr>delay_ms = (ampRelease DEFAULT_PATCH + 0.2) * 1000, captured = note'\<rparr>]"
    unfolding n(1) using tm by simp
  have a: "activeNotes (triggerRelease ''60'' (Some DEFAULT_PATCH) ?s) ''60'' = None"
    unfolding n(1) by simp
  have rel: "ampRelease DEFAULT_PATCH = 1"
    by (simp add: DEFAULT_PATCH_def)
  have ev: "events (gain (amp v)) =
              [SetValueAtTime 0 0, LinearRampToValueAtTime 1 0.1,
               ExponentialRampToValueAtTime 0.7 0.3]"
    using v(2) by (simp add: DEFAULT_PATCH_def)
  show ?thesis
    unfolding p a
    using c m n(2-6) ev v(3-8) rel by simp
qed

subsection \<open>LFO depth at creation and on update\<close>

lemma updateVoice_lfoGain_events:
  "events (gain (lfoGain (updateVoice patch t v))) =
     events (gain (lfoGain v)) @
       [SetTargetAtTime
          (if lfoTarget patch = Cutoff then lfoDepth patch * 1000
           else if lfoTarget patch = Pitch then lfoDepth patch * 100
           else if lfoTarget patch = Amp then lfoDepth patch * 0.5 else 0) t 0.1]"
  by (simp add: updateVoice_def Let_def param_defs)

text \<open>
  C10. With \<open>s\<close> the state after \<open>triggerAttack\<close> on an initialised engine: for target
  \<open>cutoff\<close> the new voice's LFO depth gain is set to \<open>lfoDepth * 2000\<close>, and
  \<open>updateActiveParams\<close> with the same patch then targets \<open>lfoDepth * 1000\<close>, half of
  it; for \<open>pitch\<close> both use \<open>lfoDepth * 100\<close> and for \<open>amp\<close> both use \<open>lfoDepth * 0.5\<close>.
\<close>

theorem lfo_depth_scaling:
  assumes "audioContext this = Some c" and "masterGain this = Some mg"
      and "s = triggerAttack id' frequency patch this"
  shows "(lfoTarget patch = Cutoff \<longrightarrow>
            map_option (\<lambda>v. events (gain (lfoGain v))) (activeNotes s id') =
              Some [SetValueAtTime (lfoDepth patch * 2000) (currentTime c)] \<and>
            map_option (\<lambda>v. events (gain (lfoGain v)))
                (activeNotes (updateActiveParams patch s) id') =
              Some [SetValueAtTime (lfoDepth patch * 2000) (currentTime c),
                    SetTargetAtTime (lfoDepth patch * 1000) (currentTime c) 0.1] \<and>
            lfoDepth patch * 1000 = (lfoDepth patch * 2000) / 2) \<and>
         (lfoTarget patch = Pitch \<longrightarrow>
            map_option (\<lambda>v. events (gain (lfoGain v))) (activeNotes s id') =
              Some [SetValueAtTime (lfoDepth patch * 100) (currentTime c)] \<and>
            map_option (\<lambda>v. events (gain (lfoGain v)))
                (activeNotes (updateActiveParams patch s) id') =
              Some [SetValueAtTime (lfoDepth patch * 100) (currentTime c),
                    SetTargetAtTime (lfoDepth patch * 100) (currentTime c) 0.1]) \<and>
         (lfoTarget patch = Amp \<longrightarrow>
            map_option (\<lambda>v. events (gain (lfoGain v))) (activeNotes s id') =
              Some [SetValueAtTime (lfoDepth patch * 0.5) (currentTime c)] \<and>
            map_option (\<lambda>v. events (gain (lfoGain v)))
                (activeNotes (updateActiveParams patch s) id') =
              Some [SetValueAtTime (lfoDepth patch * 0.5) (currentTime c),
                    SetTargetAtTime (lfoDepth patch * 0.5) (currentTime c) 0.1])"
proof -
  obtain v where v: "activeNotes s = (activeNotes this)(id' \<mapsto> v)"
    "events (gain (lfoGain v)) =
            [SetValueAtTime
               (if lfoTarget patch = Cutoff then lfoDepth patch * 2000
                else if lfoTarget patch = Pitch then lfoDepth patch * 100
                else if lfoTarget patch = Amp then lfoDepth patch * 0.5 else 0)
               (currentTime c)]"
    using triggerAttack_voice [OF assms(1,2), of id' frequency patch] assms(3) by blast
  obtain c' where c': "audioContext s = Some c'" "currentTime c' = currentTime c"
    using triggerAttack_context [OF assms(1,2), of id' frequency patch] assms(3) by blast
  have u: "activeNotes (updateActiveParams patch s) id' = Some (updateVoice patch (currentTime c) v)"
    using v(1) c' by (simp add: updateActiveParams_activeNotes)
  show ?thesis
    using v u by (simp add: updateVoice_lfoGain_events)
qed

theorem lfo_depth_scaling_witness:
  "map_option (\<lambda>v. events (gain (lfoGain v)))
     (activeNotes
        (triggerAttack ''60'' 261.63 (DEFAULT_PATCH\<lparr>lfoDepth := 0.5, lfoTarget := Cutoff\<rparr>)
           (init 44100 Running (\<lambda>k. 1 / 2) new_AudioEngine)) ''60'') =
     Some [SetValueAtTime 1000 0] \<and>
   map_option (\<lambda>v. events (gain (lfoGain v)))
     (activeNotes
        (updateActiveParams (DEFAULT_PATCH\<lparr>lfoDepth := 0.5, lfoTarget := Cutoff\<rparr>)
           (triggerAttack ''60'' 261.63 (DEFAULT_PATCH\<lparr>lfoDepth := 0.5, lfoTarget := Cutoff\<rparr>)
              (init 44100 Running (\<lambda>k. 1 / 2) new_AudioEngine))) ''60'') =
     Some [SetValueAtTime 1000 0, SetTargetAtTime 500 0 0.1] \<and>
   map_option (\<lambda>v. events (gain (lfoGain v)))
     (activeNotes
        (updateActiveParams (DEFAULT_PATCH\<lparr>lfoDepth := 0.5, lfoTarget := Pitch\<rparr>)
           (triggerAttack ''60'' 261.63 (DEFAULT_PATCH\<lparr>lfoDepth := 0.5, lfoTarget := Pitch\<rparr>)
              (init 44100 Running (\<lambda>k. 1 / 2) new_AudioEngine))) ''60'') =
     Some [SetValueAtTime 50 0, SetTargetAtTime 50 0 0.1] \<and>
   map_option (\<lambda>v. events (gain (lfoGain v)))
     (activeNotes
        (updateActiveParams (DEFAULT_PATCH\<lparr>lfoDepth := 0.5, lfoTarget := Amp\<rparr>)
           (triggerAttack ''60'' 261.63 (DEFAULT_PATCH\<lparr>lfoDepth := 0.5, lfoTarget := Amp\<rparr>)
              (init 44100 Running (\<lambda>k. 1 / 2) new_AudioEngine))) ''60'') =
     Some [SetValueAtTime 0.25 0, SetTargetAtTime 0.25 0 0.1]"
proof -
  note c = init_context [OF new_engine_uninit, of 44100 Running "\<lambda>k. 1 / 2"]
  note mg = init_fields(1) [OF new_engine_uninit, of 44100 Running "\<lambda>k. 1 / 2"]
  show ?thesis
    using lfo_depth_scaling [where id' = "''60''" and frequency = "261.63"
              and patch = "DEFAULT_PATCH\<lparr>lfoDepth := 0.5, lfoTarget := Cutoff\<rparr>", OF c mg refl]
          lfo_depth_scaling [where id' = "''60''" and frequency = "261.63"
              and patch = "DEFAULT_PATCH\<lparr>lfoDepth := 0.5, lfoTarget := Pitch\<rparr>", OF c mg refl]
          lfo_depth_scaling [where id' = "''60''" and frequency = "261.63"
              and patch = "DEFAULT_PATCH\<lparr>lfoDepth := 0.5, lfoTarget := Amp\<rparr>", OF c mg refl]
    by (simp add: DEFAULT_PATCH_def)
qed

subsection \<open>Retriggering a held note\<close>

text \<open>
  C1. The registry is a \<open>Map\<close>, so an identity has at most one entry. Two consecutive
  \<open>triggerAttack\<close> calls with the same identity on an initialised engine: after each,
  the registry is the original one with that identity bound to the voice just built,
  so other identities are untouched and the identity holds exactly one voice. The
  first call's effect on the timeout queue is that of \<open>triggerRelease(id)\<close>. The second
  call releases the first voice before registering its own: the first voice's nodes are
  handed to one new timeout of 700 ms, stopped at \<open>t + 0.6\<close> and ramped down to 0.001 by
  \<open>t + 0.5\<close>. The second voice is built from fresh nodes (identities five higher), has
  no stop time, and carries the second call's frequency and oscillator type.
\<close>

theorem retrigger_single_voice:
  assumes "audioContext this = Some c" and "masterGain this = Some mg"
      and "s1 = triggerAttack id' f1 p1 this"
      and "s2 = triggerAttack id' f2 p2 s1"
  shows "\<exists>v1 v2 v1'.
           activeNotes s1 = (activeNotes this)(id' \<mapsto> v1) \<and>
           activeNotes s2 = (activeNotes this)(id' \<mapsto> v2) \<and>
           pendingTimeouts s1 = pendingTimeouts (triggerRelease id' None this) \<and>
           pendingTimeouts s2 = pendingTimeouts s1 @ [\<lparr>delay_ms = 700, captured = v1'\<rparr>] \<and>
           osc_id (osc v1') = osc_id (osc v1) \<and> flt_id (filter_node v1') = flt_id (filter_node v1) \<and>
           gain_id (amp v1') = gain_id (amp v1) \<and> osc_id (lfo v1') = osc_id (lfo v1) \<and>
           gain_id (lfoGain v1') = gain_id (lfoGain v1) \<and>
           stopTime (osc v1') = Some (currentTime c + 0.5 + 0.1) \<and>
           stopTime (lfo v1') = Some (currentTime c + 0.5 + 0.1) \<and>
           events (gain (amp v1')) =
             filter (\<lambda>e. event_time e < currentTime c) (events (gain (amp v1))) @
               [SetValueAtTime (param_value (gain (amp v1))) (currentTime c),
                ExponentialRampToValueAtTime 0.001 (currentTime c + 0.5)] \<and>
           osc_id (osc v1) = nextId c \<and> osc_id (osc v2) = nextId c + 5 \<and>
           gain_id (amp v1) = nextId c + 2 \<and> gain_id (amp v2) = nextId c + 7 \<and>
           stopTime (osc v1) = None \<and> stopTime (osc v2) = None \<and>
           stopTime (lfo v2) = None \<and>
           events (osc_frequency (osc v2)) = [SetValueAtTime f2 (currentTime c)] \<and>
           osc_type (osc v2) = oscType p2"
proof -
  obtain v1 where v1: "activeNotes s1 = (activeNotes this)(id' \<mapsto> v1)"
    "osc_id (osc v1) = nextId c" "gain_id (amp v1) = nextId c + 2" "stopTime (osc v1) = None"
    using triggerAttack_voice [OF assms(1,2), of id' f1 p1] assms(3) by blast
  obtain c1 where c1: "audioContext s1 = Some c1" "currentTime c1 = currentTime c"
    "nextId c1 = nextId c + 5"
    using triggerAttack_context [OF assms(1,2), of id' f1 p1] assms(3) by blast
  have mg1: "masterGain s1 = Some mg"
    using assms by (simp add: triggerAttack_fields)
  obtain v2 where v2: "activeNotes s2 = (activeNotes s1)(id' \<mapsto> v2)"
    "osc_id (osc v2) = nextId c1" "gain_id (amp v2) = nextId c1 + 2" "stopTime (osc v2) = None"
    "stopTime (lfo v2) = None" "events (osc_frequency (osc v2)) = [SetValueAtTime f2 (currentTime c1)]"
    "osc_type (osc v2) = oscType p2"
    using triggerAttack_voice [OF c1(1) mg1, of id' f2 p2] assms(4) by blast
  have reg1: "activeNotes s1 id' = Some v1"
    using v1(1) by simp
  have rt: "(0.5::real) = (case (None :: SynthPatch option) of Some p \<Rightarrow> ampRelease p | None \<Rightarrow> 0.5)"
    by simp
  have t1: "pendingTimeouts s1 = pendingTimeouts (triggerRelease id' None this)"
    using triggerAttack_pendingTimeouts [OF assms(1,2), of id' f1 p1] assms(3) by simp
  have t2: "pendingTimeouts s2 = pendingTimeouts (triggerRelease id' None s1)"
    using triggerAttack_pendingTimeouts [OF c1(1) mg1, of id' f2 p2] assms(4) by simp
  have rel: "pendingTimeouts (triggerRelease id' None s1) =
      pendingTimeouts s1 @
        [\<lparr>delay_ms = 700,
          captured =
            v1\<lparr>amp := (amp v1)\<lparr>gain :=
                     (gain (amp v1))\<lparr>events :=
                        filter (\<lambda>e. event_time e < currentTime c) (events (gain (amp v1))) @
                          [SetValueAtTime (param_value (gain (amp v1))) (currentTime c),
                           ExponentialRampToValueAtTime 0.001 (currentTime c + 0.5)]\<rparr>\<rparr>,
                 osc := (osc v1)\<lparr>stopTime := Some (currentTime c + 0.5 + 0.1)\<rparr>,
                 lfo := (lfo v1)\<lparr>stopTime := Some (currentTime c + 0.5 + 0.1)\<rparr>\<rparr>\<rparr>]"
    unfolding triggerRelease_effect [OF c1(1) reg1, of None] using c1(2) by simp
  have a2: "activeNotes s2 = (activeNotes this)(id' \<mapsto> v2)"
    using v1(1) v2(1) by simp
  show ?thesis
    apply (intro exI conjI)
    apply (rule v1(1))
    apply (rule a2)
    apply (rule t1)
    apply (simp only: t2 rel)
    apply (simp_all add: v1 v2 c1)
    done
qed

theorem retrigger_single_voice_witness:
  "dom (activeNotes
          (triggerAttack ''60'' 261.63 DEFAULT_PATCH
             (triggerAttack ''60'' 261.63 DEFAULT_PATCH
                (init 44100 Running (\<lambda>k. 1 / 2) new_AudioEngine)))) = {''60''} \<and>
   map_option (\<lambda>v. (osc_id (osc v), gain_id (amp v), stopTime (osc v)))
     (activeNotes
        (triggerAttack ''60'' 261.63 DEFAULT_PATCH
           (triggerAttack ''60'' 261.63 DEFAULT_PATCH
              (init 44100 Running (\<lambda>k. 1 / 2) new_AudioEngine))) ''60'') =
     Some (16, 18, None) \<and>
   map (\<lambda>tm. (delay_ms tm, osc_id (osc (captured tm)), gain_id (amp (captured tm)),
               stopTime (osc (captured tm)), stopTime (lfo (captured tm))))
     (pendingTimeouts
        (triggerAttack ''60'' 261.63 DEFAULT_PATCH
           (triggerAttack ''60'' 261.63 DEFAULT_PATCH
              (init 44100 Running (\<lambda>k. 1 / 2) new_AudioEngine)))) =
     [(700, 11, 13, Some 0.6, Some 0.6)]"
proof -
  let ?s0 = "init 44100 Running (\<lambda>k. 1 / 2) new_AudioEngine"
  note c = init_context [OF new_engine_uninit, of 44100 Running "\<lambda>k. 1 / 2"]
  note mg = init_fields(1) [OF new_engine_uninit, of 44100 Running "\<lambda>k. 1 / 2"]
  have r0: "activeNotes ?s0 = Map.empty" "pendingTimeouts ?s0 = []"
    by (simp_all add: init_fields [OF new_engine_uninit] new_engine_registry new_engine_timeouts)
  have t0: "pendingTimeouts (triggerRelease ''60'' None ?s0) = []"
    by (simp add: triggerRelease_def c r0)
  show ?thesis
    using retrigger_single_voice [OF c mg refl refl, of "''60''" "261.63" DEFAULT_PATCH "261.63" DEFAULT_PATCH]
    by (auto simp: r0 t0 split: if_splits)
qed

end
